theory Spec2Isabelle
  imports Main "HOL-Library.Word" "HOL-Library.Sublist"
begin

section \<open>Bytes, decimal printing and decimal parsing\<close>

text \<open>
  Go strings are byte sequences; they are modelled as \<open>string\<close> (a list of 8-bit
  characters). The replies of the server are the bytes it writes to the connection.
\<close>

definition CR :: char where
  "CR = CHR 0x0D"

definition LF :: char where
  "LF = CHR 0x0A"

definition crlf :: string where
  "crlf = [CR, LF]"

definition sq :: char where
  "sq = CHR 0x27"

definition quoted :: "string \<Rightarrow> string" where
  "quoted s = sq # s @ [sq]"

definition digit_char :: "nat \<Rightarrow> char" where
  "digit_char d = ''0123456789'' ! d"

fun digits :: "nat \<Rightarrow> string" where
  "digits n = (if n < 10 then [digit_char n] else digits (n div 10) @ [digit_char (n mod 10)])"

declare digits.simps [simp del]

text \<open>\<open>fmt.Sprintf("%d", n)\<close> on an \<open>int\<close>.\<close>

definition itoa :: "int \<Rightarrow> string" where
  "itoa i = (if i < 0 then CHR ''-'' # digits (nat (- i)) else digits (nat i))"

definition is_digit :: "char \<Rightarrow> bool" where
  "is_digit c = (48 \<le> (of_char c :: nat) \<and> (of_char c :: nat) \<le> 57)"

fun digits_val :: "nat \<Rightarrow> string \<Rightarrow> nat" where
  "digits_val acc [] = acc"
| "digits_val acc (c # cs) = digits_val (acc * 10 + ((of_char c :: nat) - 48)) cs"

text \<open>
  \<open>strconv.Atoi\<close> of the Go library on a 64-bit platform: an optional sign, then one or
  more decimal digits, and a value that fits \<open>int\<close>; anything else is an error (\<open>None\<close>).
\<close>

definition Atoi :: "string \<Rightarrow> int option" where
  "Atoi s =
     (let neg = (case s of [] \<Rightarrow> False | c # _ \<Rightarrow> c = CHR ''-'');
          body = (case s of [] \<Rightarrow> [] | c # r \<Rightarrow> if c = CHR ''-'' \<or> c = CHR ''+'' then r else s)
      in if body = [] \<or> \<not> list_all is_digit body then None
         else let v = (if neg then - int (digits_val 0 body) else int (digits_val 0 body))
              in if v < - (2 ^ 63) \<or> 2 ^ 63 - 1 < v then None else Some v)"

section \<open>Reply encoders (the helpers of handler.go)\<close>

definition writeError :: "string \<Rightarrow> string" where
  "writeError msg = ''-ERR '' @ msg @ crlf"

definition writeSimpleString :: "string \<Rightarrow> string" where
  "writeSimpleString msg = ''+'' @ msg @ crlf"

definition writeNull :: string where
  "writeNull = ''$-1'' @ crlf"

definition writeBulkString :: "string \<Rightarrow> string" where
  "writeBulkString s =
     (if s = [] then ''$-1'' @ crlf
      else ''$'' @ itoa (int (length s)) @ crlf @ s @ crlf)"

definition writeInteger :: "int \<Rightarrow> string" where
  "writeInteger n = '':'' @ itoa n @ crlf"

text \<open>The array header \<open>"*%d\r\n"\<close> that the list handlers write by hand.\<close>

definition writeArrayHeader :: "int \<Rightarrow> string" where
  "writeArrayHeader n = ''*'' @ itoa n @ crlf"

section \<open>Data model\<close>

text \<open>
  \<open>types.Entry\<close>. An instant of \<open>time.Time\<close> is modelled as a number of nanoseconds on
  the process clock; the zero value \<open>time.Time{}\<close>, which the code uses for
  "no expiry", is \<open>None\<close> (a reading of \<open>time.Now()\<close>, shifted or not, carries a location
  and never equals the zero value).
\<close>

record Entry =
  Value :: string
  ExpiryTime :: "int option"

text \<open>
  \<open>types.BlockingRequest\<close>. A channel is an address in the store of channels
  (\<open>chans\<close> below); \<open>Timeout\<close> is a \<open>time.Duration\<close> in nanoseconds.
\<close>

record BlockingRequest =
  Key :: string
  Ch :: nat
  Timeout :: int

text \<open>
  The package-level variables of handler.go: \<open>store\<close>, \<open>rPlush\<close>, \<open>blockings\<close> and
  the mutex \<open>mu\<close> (\<open>True\<close> when locked). \<open>chans\<close> holds the buffer of every channel
  made so far (all are made with capacity 1) and \<open>next_ch\<close> is the next fresh address.
\<close>

record state =
  store :: "string \<rightharpoonup> Entry"
  rPlush :: "string \<rightharpoonup> string list"
  blockings :: "string \<rightharpoonup> BlockingRequest list"
  mu :: bool
  chans :: "nat \<rightharpoonup> string list"
  next_ch :: nat

text \<open>Reading a Go map of slices at a key: a missing key reads as the empty slice.\<close>

definition at_key :: "(string \<rightharpoonup> 'a list) \<Rightarrow> string \<Rightarrow> 'a list" where
  "at_key m k = (case m k of None \<Rightarrow> [] | Some l \<Rightarrow> l)"

text \<open>
  The functions of the Go library whose tables are not part of the repository are
  parameters of the model: \<open>strings.ToUpper\<close>, \<open>strings.TrimSpace\<close>, the scan
  \<open>fmt.Sscanf(s, "*%d", &n)\<close> (\<open>None\<close> when nothing is stored in \<open>n\<close>), and
  \<open>strconv.ParseFloat(s, 64)\<close> with the two uses the code makes of the float:
  the test \<open>timeout == 0\<close> and the conversion
  \<open>time.Duration(timeout * float64(time.Second))\<close>.
\<close>

record 'f lib =
  ToUpper :: "string \<Rightarrow> string"
  TrimSpace :: "string \<Rightarrow> string"
  Sscanf_count :: "string \<Rightarrow> int option"
  ParseFloat :: "string \<Rightarrow> 'f option"
  is_zero :: "'f \<Rightarrow> bool"
  to_duration :: "'f \<Rightarrow> int"

text \<open>
  What a handler call comes to. \<open>Done out s\<close>: it returned, having written \<open>out\<close> to
  the connection, in state \<open>s\<close>. \<open>Blocked\<close>: it is waiting in \<open>mu.Lock()\<close> for a mutex
  that is held (nothing written, nothing changed). \<open>Parked req forever s\<close>: BLPOP has
  queued \<open>req\<close> and now waits on its channel, with no timer when \<open>forever\<close>.
\<close>

datatype outcome =
  Done string state
| Blocked
| Parked BlockingRequest bool state

section \<open>Key/value handlers\<close>

definition handlePing :: "state \<Rightarrow> outcome" where
  "handlePing s = Done (writeSimpleString ''PONG'') s"

definition handleEcho :: "string list \<Rightarrow> state \<Rightarrow> outcome" where
  "handleEcho args s =
     (if length args \<noteq> 2 then Done (writeError (''wrong number of arguments for '' @ quoted ''ECHO'')) s
      else Done (writeSimpleString (args ! 1)) s)"

text \<open>
  \<open>time.Duration(ms) * time.Millisecond\<close> is an \<open>int64\<close> product and wraps around;
  \<open>time.Now().Add\<close> is the sum on the clock.
\<close>

definition millis :: "int \<Rightarrow> int" where
  "millis ms = sint (word_of_int ms * 1000000 :: 64 word)"

definition handleSet :: "'f lib \<Rightarrow> int \<Rightarrow> string list \<Rightarrow> state \<Rightarrow> outcome" where
  "handleSet L now args s =
     (if length args < 3 then Done (writeError (''wrong number of arguments for '' @ quoted ''SET'')) s
      else
        let key = args ! 1; val = args ! 2 in
        if length args \<ge> 5 \<and> ToUpper L (args ! 3) = ''PX'' then
          (case Atoi (args ! 4) of
             None \<Rightarrow> Done (writeError ''PX value must be integer'') s
           | Some ms \<Rightarrow>
               Done (writeSimpleString ''OK'')
                 (s\<lparr>store := (store s)(key \<mapsto> \<lparr>Value = val, ExpiryTime = Some (now + millis ms)\<rparr>)\<rparr>))
        else
          Done (writeSimpleString ''OK'')
            (s\<lparr>store := (store s)(key \<mapsto> \<lparr>Value = val, ExpiryTime = None\<rparr>)\<rparr>))"

text \<open>
  \<open>delete(store, key)\<close> runs on both arms of the disjunction; on a missing key it
  changes nothing. \<open>time.Now().After(t)\<close> is the strict order of the clock.
\<close>

definition handleGet :: "int \<Rightarrow> string list \<Rightarrow> state \<Rightarrow> outcome" where
  "handleGet now args s =
     (if length args \<noteq> 2 then Done (writeError (''wrong number of arguments for '' @ quoted ''GET'')) s
      else
        let key = args ! 1 in
        (case store s key of
           None \<Rightarrow> Done writeNull (s\<lparr>store := (store s)(key := None)\<rparr>)
         | Some entry \<Rightarrow>
             if ExpiryTime entry \<noteq> None \<and> now > the (ExpiryTime entry)
             then Done writeNull (s\<lparr>store := (store s)(key := None)\<rparr>)
             else Done (writeBulkString (Value entry)) s))"

section \<open>List handlers\<close>

text \<open>The loop of \<open>handleLPush\<close> over \<open>args[2:]\<close>: each value goes in front.\<close>

fun lpush_loop :: "string list \<Rightarrow> string \<Rightarrow> (string \<rightharpoonup> string list) \<Rightarrow> (string \<rightharpoonup> string list)" where
  "lpush_loop [] key m = m"
| "lpush_loop (v # vs) key m = lpush_loop vs key (m(key \<mapsto> [v] @ at_key m key))"

text \<open>The loop of \<open>handleRPush\<close> over \<open>args[2:]\<close>: each value goes at the back.\<close>

fun rpush_loop :: "string list \<Rightarrow> string \<Rightarrow> (string \<rightharpoonup> string list) \<Rightarrow> (string \<rightharpoonup> string list)" where
  "rpush_loop [] key m = m"
| "rpush_loop (v # vs) key m = rpush_loop vs key (m(key \<mapsto> at_key m key @ [v]))"

text \<open>
  \<open>select { case ch <- v: default: }\<close> on a channel of capacity 1: the value is
  buffered when there is room, and dropped otherwise (also on a channel that was
  never made, which is never ready).
\<close>

definition send_nonblocking :: "nat \<Rightarrow> string \<Rightarrow> state \<Rightarrow> state" where
  "send_nonblocking ch v s =
     (case chans s ch of
        None \<Rightarrow> s
      | Some buf \<Rightarrow> if length buf < 1 then s\<lparr>chans := (chans s)(ch \<mapsto> buf @ [v])\<rparr> else s)"

definition wakeUpFirstBlocking :: "string \<Rightarrow> state \<Rightarrow> state" where
  "wakeUpFirstBlocking key s =
     (case blockings s key of
        Some (req # rest) \<Rightarrow>
          send_nonblocking (Ch req) key (s\<lparr>blockings := (blockings s)(key \<mapsto> rest)\<rparr>)
      | _ \<Rightarrow> s)"

text \<open>
  \<open>mu.Lock()\<close> with \<open>defer mu.Unlock()\<close>: the body runs with the mutex held and
  the mutex is released on return.
\<close>

definition handleLPush :: "string list \<Rightarrow> state \<Rightarrow> outcome" where
  "handleLPush args s =
     (if length args < 3 then Done (writeError (''wrong number of arguments for '' @ quoted ''LPUSH'')) s
      else if mu s then Blocked
      else
        let key = args ! 1;
            s1 = s\<lparr>mu := True\<rparr>;
            s2 = s1\<lparr>rPlush := lpush_loop (drop 2 args) key (rPlush s1)\<rparr>;
            s3 = wakeUpFirstBlocking key s2
        in Done (writeInteger (int (length (at_key (rPlush s3) key)))) (s3\<lparr>mu := False\<rparr>))"

definition handleRPush :: "string list \<Rightarrow> state \<Rightarrow> outcome" where
  "handleRPush args s =
     (if length args < 3 then Done (writeError (''wrong number of arguments for '' @ quoted ''RPUSH'')) s
      else if mu s then Blocked
      else
        let key = args ! 1;
            s1 = s\<lparr>mu := True\<rparr>;
            s2 = s1\<lparr>rPlush := rpush_loop (drop 2 args) key (rPlush s1)\<rparr>;
            s3 = wakeUpFirstBlocking key s2
        in Done (writeInteger (int (length (at_key (rPlush s3) key)))) (s3\<lparr>mu := False\<rparr>))"

text \<open>
  \<open>start\<close> and \<open>end\<close> are Go \<open>int\<close>s within the range of \<open>Atoi\<close>, and the list
  length is non-negative, so no sum below leaves the 64-bit range. The slice
  \<open>list[start : end+1]\<close> is taken with \<open>0 \<le> start \<le> end < len(list)\<close>, where it
  cannot panic.
\<close>

definition handleLRange :: "string list \<Rightarrow> state \<Rightarrow> outcome" where
  "handleLRange args s =
     (if length args \<noteq> 4 then Done (writeError (''wrong number of arguments for '' @ quoted ''LRANGE'')) s
      else
        let key = args ! 1 in
        (case (Atoi (args ! 2), Atoi (args ! 3)) of
           (Some start0, Some end0) \<Rightarrow>
             let list = at_key (rPlush s) key;
                 n = int (length list);
                 start = (if start0 < 0 then (if n + start0 < 0 then 0 else n + start0) else start0);
                 end1 = (if end0 < 0 then (if n + end0 < 0 then 0 else n + end0) else end0)
             in if start \<ge> n \<or> start > end1 then Done (''*0'' @ crlf) s
                else
                  let end2 = (if end1 \<ge> n then n - 1 else end1);
                      sublist = take (nat (end2 + 1) - nat start) (drop (nat start) list)
                  in Done (writeArrayHeader (int (length sublist)) @ concat (map writeBulkString sublist)) s
         | _ \<Rightarrow> Done (writeError ''invalid start or end index'') s))"

definition handleLLen :: "string list \<Rightarrow> state \<Rightarrow> outcome" where
  "handleLLen args s =
     (if length args \<noteq> 2 then Done (writeError (''wrong number of arguments for '' @ quoted ''LLEN'')) s
      else Done (writeInteger (int (length (at_key (rPlush s) (args ! 1))))) s)"

definition handleLPop :: "string list \<Rightarrow> state \<Rightarrow> outcome" where
  "handleLPop args s =
     (if length args < 2 then Done (writeError (''wrong number of arguments for '' @ quoted ''LPOP'')) s
      else
        let key = args ! 1;
            list = at_key (rPlush s) key
        in if length list = 0 then Done writeNull s
           else if length args = 3 then
             let count0 = (case Atoi (args ! 2) of None \<Rightarrow> 1 | Some c \<Rightarrow> if c \<le> 0 then 1 else c);
                 count = (if count0 > int (length list) then int (length list) else count0)
             in Done (writeArrayHeader count @ concat (map writeBulkString (take (nat count) list)))
                  (s\<lparr>rPlush := (rPlush s)(key \<mapsto> drop (nat count) list)\<rparr>)
           else
             Done (writeBulkString (list ! 0)) (s\<lparr>rPlush := (rPlush s)(key \<mapsto> drop 1 list)\<rparr>))"

section \<open>BLPOP\<close>

text \<open>
  \<open>handleBLPop\<close> up to the point where it starts to wait. The fast path pops under
  the mutex and releases it. The path of a timeout that does not parse returns
  without \<open>mu.Unlock()\<close>. Otherwise a fresh channel is made, the request is queued
  at the tail, the mutex is released and the handler waits.
\<close>

definition handleBLPop :: "'f lib \<Rightarrow> string list \<Rightarrow> state \<Rightarrow> outcome" where
  "handleBLPop L args s =
     (if length args \<noteq> 3 then Done (writeError (''wrong number of arguments for '' @ quoted ''BLPOP'')) s
      else if mu s then Blocked
      else
        let s1 = s\<lparr>mu := True\<rparr>;
            key = args ! 1
        in (case rPlush s1 key of
              Some (value # rest) \<Rightarrow>
                Done (''*2'' @ crlf @ writeBulkString key @ writeBulkString value)
                  (s1\<lparr>rPlush := (rPlush s1)(key \<mapsto> rest), mu := False\<rparr>)
            | _ \<Rightarrow>
                (case ParseFloat L (args ! 2) of
                   None \<Rightarrow> Done (writeError ''timeout must be a number'') s1
                 | Some timeout \<Rightarrow>
                     let ch = next_ch s1;
                         s2 = s1\<lparr>chans := (chans s1)(ch \<mapsto> []), next_ch := Suc ch\<rparr>;
                         blocking = \<lparr>Key = key, Ch = ch, Timeout = to_duration L timeout\<rparr>;
                         s3 = s2\<lparr>blockings := (blockings s2)(key \<mapsto> at_key (blockings s2) key @ [blocking]),
                                 mu := False\<rparr>
                     in Parked blocking (is_zero L timeout) s3)))"

text \<open>
  The wait of \<open>handleBLPop\<close> ends when a value is received from the channel: the
  list is read again, without the mutex, and popped when it is not empty; when it is
  empty the handler returns and writes nothing. With a timer the key is the received
  value, without one it is the key of the request.
\<close>

definition blpop_signalled :: "BlockingRequest \<Rightarrow> bool \<Rightarrow> state \<Rightarrow> outcome" where
  "blpop_signalled req forever s =
     (case chans s (Ch req) of
        Some (k # buf) \<Rightarrow>
          let s1 = s\<lparr>chans := (chans s)(Ch req \<mapsto> buf)\<rparr>;
              key = (if forever then Key req else k)
          in (case at_key (rPlush s1) key of
                [] \<Rightarrow> Done [] s1
              | value # rest \<Rightarrow>
                  Done (''*2'' @ crlf @ writeBulkString key @ writeBulkString value)
                    (s1\<lparr>rPlush := (rPlush s1)(key \<mapsto> rest)\<rparr>))
      | _ \<Rightarrow> Parked req forever s)"

text \<open>Or it ends when the timer fires: the request is filtered out of its queue.\<close>

definition blpop_timed_out :: "BlockingRequest \<Rightarrow> state \<Rightarrow> outcome" where
  "blpop_timed_out req s =
     (if mu s then Blocked
      else Done writeNull
             (s\<lparr>blockings := (blockings s)(Key req \<mapsto>
                   filter (\<lambda>r. Ch r \<noteq> Ch req) (at_key (blockings s) (Key req)))\<rparr>))"

section \<open>Request decoding and the connection loop\<close>

text \<open>
  The read side of a connection: the bytes still to arrive, and the error that
  every read returns once they are used up (\<open>''EOF''\<close> when the peer closes).
\<close>

record reader =
  pending :: string
  failure :: string

text \<open>
  A Go \<open>error\<close>: the reader's own, or one made by \<open>errors.New\<close>. \<open>Error\<close> is its
  message.
\<close>

datatype error = ReadError string | NewError string

fun Error :: "error \<Rightarrow> string" where
  "Error (ReadError m) = m"
| "Error (NewError m) = m"

text \<open>\<open>reader.ReadString('\n')\<close>: the bytes up to and with the first line feed.\<close>

definition ReadString :: "reader \<Rightarrow> (error + string) \<times> reader" where
  "ReadString rd =
     (if LF \<in> set (pending rd)
      then (Inr (takeWhile (\<lambda>c. c \<noteq> LF) (pending rd) @ [LF]),
            rd\<lparr>pending := tl (dropWhile (\<lambda>c. c \<noteq> LF) (pending rd))\<rparr>)
      else (Inl (ReadError (failure rd)), rd\<lparr>pending := []\<rparr>))"

definition parseLength :: "'f lib \<Rightarrow> string \<Rightarrow> int" where
  "parseLength L s = (case Sscanf_count L s of None \<Rightarrow> 0 | Some n \<Rightarrow> n)"

text \<open>The loop of \<open>parseArgs\<close>, with the number of elements still to read.\<close>

fun read_args :: "'f lib \<Rightarrow> nat \<Rightarrow> string list \<Rightarrow> reader \<Rightarrow> (error + string list) \<times> reader" where
  "read_args L 0 args rd = (Inr args, rd)"
| "read_args L (Suc k) args rd =
     (case ReadString rd of
        (Inl err, rd1) \<Rightarrow> (Inl err, rd1)
      | (Inr _, rd1) \<Rightarrow>
          (case ReadString rd1 of
             (Inl err, rd2) \<Rightarrow> (Inl err, rd2)
           | (Inr arg, rd2) \<Rightarrow> read_args L k (args @ [TrimSpace L arg]) rd2))"

text \<open>\<open>parseArgs\<close>: its result, the bytes it writes itself, and the reader after it.\<close>

definition parseArgs :: "'f lib \<Rightarrow> reader \<Rightarrow> (error + string list) \<times> string \<times> reader" where
  "parseArgs L rd =
     (case ReadString rd of
        (Inl err, rd1) \<Rightarrow> (Inl err, [], rd1)
      | (Inr line0, rd1) \<Rightarrow>
          let line = TrimSpace L line0 in
          if line = [] \<or> \<not> prefix ''*'' line
          then (Inl (NewError ''invalid format''), writeError ''invalid format'', rd1)
          else
            let n = parseLength L line in
            (case read_args L (nat n) [] rd1 of (r, rd2) \<Rightarrow> (r, [], rd2)))"

text \<open>The \<open>switch\<close> of \<open>HandleConnection\<close>, on a non-empty argument list.\<close>

definition dispatch :: "'f lib \<Rightarrow> int \<Rightarrow> string list \<Rightarrow> state \<Rightarrow> outcome" where
  "dispatch L now args s =
     (let cmd = ToUpper L (args ! 0) in
      if cmd = ''PING'' then handlePing s
      else if cmd = ''ECHO'' then handleEcho args s
      else if cmd = ''SET'' then handleSet L now args s
      else if cmd = ''GET'' then handleGet now args s
      else if cmd = ''LPUSH'' then handleLPush args s
      else if cmd = ''RPUSH'' then handleRPush args s
      else if cmd = ''LRANGE'' then handleLRange args s
      else if cmd = ''LLEN'' then handleLLen args s
      else if cmd = ''LPOP'' then handleLPop args s
      else if cmd = ''BLPOP'' then handleBLPop L args s
      else Done (writeError (''unknown command '' @ quoted (args ! 0))) s)"

text \<open>A connection: its read side and the bytes written to it so far.\<close>

record conn =
  inp :: reader
  out :: string

text \<open>
  The loop of \<open>HandleConnection\<close> has no \<open>return\<close> and no \<open>break\<close>: every path
  of its body ends in \<open>continue\<close> or falls through to the next iteration. It is
  run here for a number of iterations: \<open>Looping c s\<close> is the loop after them, about
  to iterate again; \<open>Stuck c s\<close> is the loop held inside a handler that waits (for
  the mutex, or in BLPOP). \<open>clock i\<close> is the reading of \<open>time.Now()\<close> during
  iteration \<open>i\<close>.
\<close>

datatype run = Looping conn state | Stuck conn state

fun HandleConnection :: "'f lib \<Rightarrow> (nat \<Rightarrow> int) \<Rightarrow> nat \<Rightarrow> nat \<Rightarrow> conn \<Rightarrow> state \<Rightarrow> run" where
  "HandleConnection L clock 0 i c s = Looping c s"
| "HandleConnection L clock (Suc n) i c s =
     (case parseArgs L (inp c) of
        (Inl err, w, rd) \<Rightarrow>
          HandleConnection L clock n (Suc i)
            (c\<lparr>inp := rd, out := out c @ w @ writeError (Error err)\<rparr>) s
      | (Inr args, w, rd) \<Rightarrow>
          if length args = 0
          then HandleConnection L clock n (Suc i)
                 (c\<lparr>inp := rd, out := out c @ w @ writeError ''empty command''\<rparr>) s
          else
            (case dispatch L (clock i) args s of
               Done w' s' \<Rightarrow>
                 HandleConnection L clock n (Suc i) (c\<lparr>inp := rd, out := out c @ w @ w'\<rparr>) s'
             | Blocked \<Rightarrow> Stuck (c\<lparr>inp := rd, out := out c @ w\<rparr>) s
             | Parked req forever s' \<Rightarrow> Stuck (c\<lparr>inp := rd, out := out c @ w\<rparr>) s'))"

section \<open>The properties, in their own words\<close>

text \<open>
  The bulk string of the wire format: \<open>$<byte-length>\r\n<text>\r\n\<close>, for every
  text, the empty one too.
\<close>

definition spec_bulk_string :: "string \<Rightarrow> string" where
  "spec_bulk_string v = ''$'' @ itoa (int (length v)) @ crlf @ v @ crlf"

text \<open>
  The array of the wire format: the header \<open>*<count>\r\n\<close>, then every element as
  the bulk string of the wire format, the empty text too.
\<close>

definition spec_array :: "string list \<Rightarrow> string" where
  "spec_array items = ''*'' @ itoa (int (length items)) @ crlf @ concat (map spec_bulk_string items)"

text \<open>
  The bytes that stand for a text in the replies of the server, stated from the wire
  format: the bulk string of the wire format for a text that is not empty, and the null
  bulk string \<open>$-1\r\n\<close> for the empty text.
\<close>

definition bulk_or_null :: "string \<Rightarrow> string" where
  "bulk_or_null v = (if v = [] then ''$-1'' @ crlf else spec_bulk_string v)"

text \<open>An array whose elements are written so: the header, then each element.\<close>

definition array_bulk_or_null :: "string list \<Rightarrow> string" where
  "array_bulk_or_null items =
     ''*'' @ itoa (int (length items)) @ crlf @ concat (map bulk_or_null items)"

text \<open>
  The range of LRANGE as it is described: a negative index counts from the end of
  the list (\<open>-1\<close> is the last element); both bounds are clamped into
  \<open>[0, length - 1]\<close>; the result is empty when the clamped start exceeds the clamped
  end or the start is past the end of the list; otherwise it is the elements from the
  clamped start through the clamped end, in list order.
\<close>

definition spec_lrange :: "string list \<Rightarrow> int \<Rightarrow> int \<Rightarrow> string list" where
  "spec_lrange list start stop =
     (let n = int (length list);
          from_end = (\<lambda>i. if i < 0 then n + i else i);
          lo = (\<lambda>i. max 0 i);
          hi = (\<lambda>i. min (n - 1) i);
          a = hi (lo (from_end start));
          b = hi (lo (from_end stop))
      in if a > b \<or> lo (from_end start) \<ge> n then []
         else map (\<lambda>i. list ! i) [nat a ..< Suc (nat b)])"

text \<open>
  The number of elements LPOP removes when it is given a count: a count that does not
  parse or is not positive stands for 1, and a count beyond the length of the list
  stands for the length.
\<close>

definition spec_lpop_count :: "int option \<Rightarrow> nat \<Rightarrow> nat" where
  "spec_lpop_count parsed len =
     (let count = (case parsed of None \<Rightarrow> 1 | Some c \<Rightarrow> if c \<le> 0 then 1 else nat c)
      in min count len)"

text \<open>
  The wake-up on push as it is described, from the state before the push to the state
  after it. With no waiter queued for the key, queues and channels are as before.
  Otherwise exactly the head waiter leaves the queue of the key, the others keep
  their places, and the one signal (the key) is put on the head waiter's channel when that
  channel has room; when it has none the signal is dropped.
\<close>

definition spec_wake_up :: "string \<Rightarrow> state \<Rightarrow> state \<Rightarrow> bool" where
  "spec_wake_up key s s' =
     (case at_key (blockings s) key of
        [] \<Rightarrow> blockings s' = blockings s \<and> chans s' = chans s
      | w # rest \<Rightarrow>
          blockings s' = (blockings s)(key \<mapsto> rest) \<and>
          chans s' = (case chans s (Ch w) of
                        Some [] \<Rightarrow> (chans s)(Ch w \<mapsto> [key])
                      | _ \<Rightarrow> chans s))"

text \<open>The case labels of the \<open>switch\<close> of \<open>HandleConnection\<close>.\<close>

definition supported :: "string list" where
  "supported = [''PING'', ''ECHO'', ''SET'', ''GET'', ''LPUSH'', ''RPUSH'', ''LRANGE'', ''LLEN'', ''LPOP'', ''BLPOP'']"

section \<open>Values for the worked examples\<close>

text \<open>
  An instance of the library on ASCII text: case mapping of the letters a to z,
  trimming of ASCII white space, a count scan that reads the decimal digits after
  the star, and timeouts in whole seconds.
\<close>

definition ascii_upper :: "char \<Rightarrow> char" where
  "ascii_upper c =
     (case map_of (zip ''abcdefghijklmnopqrstuvwxyz'' ''ABCDEFGHIJKLMNOPQRSTUVWXYZ'') c of
        None \<Rightarrow> c
      | Some u \<Rightarrow> u)"

definition ascii_space :: "char \<Rightarrow> bool" where
  "ascii_space c = (c = CHR '' '' \<or> c = CHR 0x09 \<or> c = LF \<or> c = CHR 0x0B \<or> c = CHR 0x0C \<or> c = CR)"

definition ascii_lib :: "int lib" where
  "ascii_lib =
     \<lparr>ToUpper = map ascii_upper,
      TrimSpace = (\<lambda>s. rev (dropWhile ascii_space (rev (dropWhile ascii_space s)))),
      Sscanf_count = (\<lambda>s. case s of [] \<Rightarrow> None
                                | c # r \<Rightarrow> if c = CHR ''*'' then Atoi (takeWhile is_digit r) else None),
      ParseFloat = Atoi,
      is_zero = (\<lambda>t. t = 0),
      to_duration = (\<lambda>t. t * 1000000000)\<rparr>"

text \<open>The state of a server that has just started.\<close>

definition init :: state where
  "init = \<lparr>store = Map.empty, rPlush = Map.empty, blockings = Map.empty, mu = False,
           chans = Map.empty, next_ch = 0\<rparr>"

section \<open>Auxiliary facts\<close>

lemma digits_small: "n < 10 \<Longrightarrow> digits n = [digit_char n]"
  by (simp add: digits.simps)

lemma digit_chars:
  "digit_char 0 = CHR ''0''" "digit_char (Suc 0) = CHR ''1''" "digit_char 2 = CHR ''2''"
  "digit_char 3 = CHR ''3''" "digit_char 4 = CHR ''4''" "digit_char 5 = CHR ''5''"
  "digit_char 6 = CHR ''6''" "digit_char 7 = CHR ''7''" "digit_char 8 = CHR ''8''"
  "digit_char 9 = CHR ''9''"
  by (simp_all add: digit_char_def)

lemma itoa_small:
  "itoa 0 = ''0''" "itoa 1 = ''1''" "itoa 2 = ''2''" "itoa 3 = ''3''"
  by (simp_all add: itoa_def digits_small digit_chars)

lemma delete_missing: "store s k = None \<Longrightarrow> s\<lparr>store := (store s)(k := None)\<rparr> = s"
proof -
  assume "store s k = None"
  then have "(store s)(k := None) = store s" by (metis fun_upd_idem)
  then show ?thesis by simp
qed




lemma wake_effect:
  "blockings t = blockings s \<Longrightarrow> chans t = chans s \<Longrightarrow>
   spec_wake_up key s (wakeUpFirstBlocking key t\<lparr>mu := b\<rparr>)"
  by (auto simp add: spec_wake_up_def wakeUpFirstBlocking_def send_nonblocking_def at_key_def
      split: option.splits list.splits)

lemma nth_range: "j \<le> length xs \<Longrightarrow> map (\<lambda>i. xs ! i) [i ..< j] = take (j - i) (drop i xs)"
  by (simp add: list_eq_iff_nth_eq)

lemma writeBulkString_bytes: "writeBulkString = bulk_or_null"
  by (rule ext) (simp add: writeBulkString_def bulk_or_null_def spec_bulk_string_def)

lemma array_without_empty:
  "[] \<notin> set items \<Longrightarrow> array_bulk_or_null items = spec_array items"
proof -
  assume "[] \<notin> set items"
  then have eq: "map bulk_or_null items = map spec_bulk_string items"
    by (induction items) (auto simp add: bulk_or_null_def)
  show ?thesis
    unfolding array_bulk_or_null_def spec_array_def eq by (rule refl)
qed

lemma parseArgs_read_fails:
  "LF \<notin> set (pending rd) \<Longrightarrow>
   parseArgs L rd = (Inl (ReadError (failure rd)), [], rd\<lparr>pending := []\<rparr>)"
  by (simp add: parseArgs_def ReadString_def)

lemma lpop_with_count:
  assumes "at_key (rPlush s) key = l" and "l \<noteq> []"
  shows "handleLPop [c, key, cnt] s =
           Done (array_bulk_or_null (take (spec_lpop_count (Atoi cnt) (length l)) l))
             (s\<lparr>rPlush := (rPlush s)(key \<mapsto> drop (spec_lpop_count (Atoi cnt) (length l)) l)\<rparr>)"
proof -
  define count0 where "count0 = (case Atoi cnt of None \<Rightarrow> 1 | Some c \<Rightarrow> if c \<le> 0 then 1 else c)"
  define count where "count = (if count0 > int (length l) then int (length l) else count0)"
  have code: "handleLPop [c, key, cnt] s =
      Done (writeArrayHeader count @ concat (map writeBulkString (take (nat count) l)))
        (s\<lparr>rPlush := (rPlush s)(key \<mapsto> drop (nat count) l)\<rparr>)"
    unfolding count_def count0_def using assms
    by (simp add: handleLPop_def Let_def)
  have pos: "0 < count0"
    unfolding count0_def by (simp split: option.splits)
  have "spec_lpop_count (Atoi cnt) (length l) = min (nat count0) (length l)"
    unfolding spec_lpop_count_def count0_def Let_def
    by (simp split: option.splits)
  with pos have m: "count = int (spec_lpop_count (Atoi cnt) (length l))"
    unfolding count_def by (auto simp add: min_def)
  have len: "length (take (spec_lpop_count (Atoi cnt) (length l)) l) = spec_lpop_count (Atoi cnt) (length l)"
    by (simp add: spec_lpop_count_def Let_def)
  show ?thesis
    unfolding code m array_bulk_or_null_def len writeBulkString_bytes writeArrayHeader_def by simp
qed

text \<open>
  The path of \<open>handleBLPop\<close> for a timeout that does not parse returns with the
  mutex still locked, and a push that comes after it waits in \<open>mu.Lock()\<close>.
\<close>

lemma blpop_bad_timeout_keeps_mutex:
  assumes "\<not> mu s" and "ParseFloat L tm = None" and "at_key (rPlush s) key = []"
  shows "handleBLPop L [c, key, tm] s = Done (writeError ''timeout must be a number'') (s\<lparr>mu := True\<rparr>)"
    and "handleLPush (c' # key' # v # vs) (s\<lparr>mu := True\<rparr>) = Blocked"
  using assms
  by (auto simp add: handleBLPop_def handleLPush_def Let_def at_key_def split: option.splits list.splits)

section \<open>SET and GET\<close>

text \<open>
  C1, as the code has it. For every key \<open>k\<close> and value \<open>v\<close>, \<open>SET k v\<close> with no
  further argument replies \<open>+OK\<close> and stores the value with no expiry, and a \<open>GET k\<close>
  on the resulting store, at any later reading of the clock, leaves the store as it is
  and replies the bulk string \<open>$<length>\r\n<v>\r\n\<close> carrying exactly \<open>v\<close> when \<open>v\<close>
  is not empty. For the empty value the reply is the null bulk string \<open>$-1\r\n\<close>.
\<close>

theorem set_then_get:
  "handleSet L now [c, k, v] s =
     Done (''+OK'' @ crlf) (s\<lparr>store := (store s)(k \<mapsto> \<lparr>Value = v, ExpiryTime = None\<rparr>)\<rparr>)
   \<and> handleGet now' [c', k] (s\<lparr>store := (store s)(k \<mapsto> \<lparr>Value = v, ExpiryTime = None\<rparr>)\<rparr>) =
     Done (if v = [] then ''$-1'' @ crlf else spec_bulk_string v)
       (s\<lparr>store := (store s)(k \<mapsto> \<lparr>Value = v, ExpiryTime = None\<rparr>)\<rparr>)"
  by (simp add: handleSet_def handleGet_def writeSimpleString_def writeBulkString_def spec_bulk_string_def)

text \<open>
  C1 as it is stated fails at the empty value: after \<open>SET k ""\<close> the reply of \<open>GET k\<close>
  is \<open>$-1\r\n\<close>, which is not the bulk string of the empty text (\<open>$0\r\n\r\n\<close>) and is
  the very reply of a \<open>GET\<close> on a key that was never set.
\<close>

theorem set_then_get_empty_value:
  "handleSet ascii_lib 0 [''SET'', ''k'', []] init =
     Done (''+OK'' @ crlf) (init\<lparr>store := [''k'' \<mapsto> \<lparr>Value = [], ExpiryTime = None\<rparr>]\<rparr>)
   \<and> handleGet 1 [''GET'', ''k''] (init\<lparr>store := [''k'' \<mapsto> \<lparr>Value = [], ExpiryTime = None\<rparr>]\<rparr>) =
     Done (''$-1'' @ crlf) (init\<lparr>store := [''k'' \<mapsto> \<lparr>Value = [], ExpiryTime = None\<rparr>]\<rparr>)
   \<and> ''$-1'' @ crlf \<noteq> spec_bulk_string []
   \<and> handleGet 1 [''GET'', ''k''] init = Done (''$-1'' @ crlf) init"
  by (simp add: handleSet_def handleGet_def writeSimpleString_def writeBulkString_def spec_bulk_string_def
      init_def writeNull_def itoa_small crlf_def)

text \<open>
  C7, as the code has it. \<open>GET k\<close> on a key that is absent replies the null bulk
  string and changes nothing. On an entry whose expiry has passed at the reading
  \<open>now\<close> of the clock it deletes the entry and replies the null bulk string. On an
  entry whose expiry has not passed, and on an entry with no expiry, it changes nothing
  (an entry with no expiry is never deleted) and replies the current value: as the
  bulk string \<open>$<length>\r\n<value>\r\n\<close> when the value is not empty, and as the null
  bulk string when the value is the empty string.
\<close>

theorem get_lazy_expiry:
  "(store s k = None \<longrightarrow> handleGet now [c, k] s = Done (''$-1'' @ crlf) s)
   \<and> (store s k = Some e \<and> ExpiryTime e = Some t \<and> now > t \<longrightarrow>
        handleGet now [c, k] s = Done (''$-1'' @ crlf) (s\<lparr>store := (store s)(k := None)\<rparr>))
   \<and> (store s k = Some e \<and> ExpiryTime e = Some t \<and> now \<le> t \<longrightarrow>
        handleGet now [c, k] s =
          Done (if Value e = [] then ''$-1'' @ crlf else spec_bulk_string (Value e)) s)
   \<and> (store s k = Some e \<and> ExpiryTime e = None \<longrightarrow>
        handleGet now [c, k] s =
          Done (if Value e = [] then ''$-1'' @ crlf else spec_bulk_string (Value e)) s)"
  by (auto simp add: handleGet_def delete_missing writeNull_def writeBulkString_def spec_bulk_string_def)

text \<open>
  The four cases of C7 on a store that holds \<open>v\<close> at \<open>k\<close> until the instant 10 and
  \<open>w\<close> at \<open>p\<close> for ever: a key never set, \<open>k\<close> read at 11, \<open>k\<close> read at 10, and
  \<open>p\<close>.
\<close>

theorem get_lazy_expiry_witness:
  "handleGet 11 [''GET'', ''z'']
      (init\<lparr>store := [''k'' \<mapsto> \<lparr>Value = ''v'', ExpiryTime = Some 10\<rparr>, ''p'' \<mapsto> \<lparr>Value = ''w'', ExpiryTime = None\<rparr>]\<rparr>) =
     Done (''$-1'' @ crlf)
      (init\<lparr>store := [''k'' \<mapsto> \<lparr>Value = ''v'', ExpiryTime = Some 10\<rparr>, ''p'' \<mapsto> \<lparr>Value = ''w'', ExpiryTime = None\<rparr>]\<rparr>)
   \<and> handleGet 11 [''GET'', ''k'']
      (init\<lparr>store := [''k'' \<mapsto> \<lparr>Value = ''v'', ExpiryTime = Some 10\<rparr>, ''p'' \<mapsto> \<lparr>Value = ''w'', ExpiryTime = None\<rparr>]\<rparr>) =
     Done (''$-1'' @ crlf) (init\<lparr>store := [''p'' \<mapsto> \<lparr>Value = ''w'', ExpiryTime = None\<rparr>]\<rparr>)
   \<and> handleGet 10 [''GET'', ''k'']
      (init\<lparr>store := [''k'' \<mapsto> \<lparr>Value = ''v'', ExpiryTime = Some 10\<rparr>, ''p'' \<mapsto> \<lparr>Value = ''w'', ExpiryTime = None\<rparr>]\<rparr>) =
     Done (''$1'' @ crlf @ ''v'' @ crlf)
      (init\<lparr>store := [''k'' \<mapsto> \<lparr>Value = ''v'', ExpiryTime = Some 10\<rparr>, ''p'' \<mapsto> \<lparr>Value = ''w'', ExpiryTime = None\<rparr>]\<rparr>)
   \<and> handleGet 11 [''GET'', ''p'']
      (init\<lparr>store := [''k'' \<mapsto> \<lparr>Value = ''v'', ExpiryTime = Some 10\<rparr>, ''p'' \<mapsto> \<lparr>Value = ''w'', ExpiryTime = None\<rparr>]\<rparr>) =
     Done (''$1'' @ crlf @ ''w'' @ crlf)
      (init\<lparr>store := [''k'' \<mapsto> \<lparr>Value = ''v'', ExpiryTime = Some 10\<rparr>, ''p'' \<mapsto> \<lparr>Value = ''w'', ExpiryTime = None\<rparr>]\<rparr>)"
proof -
  define st where "st = init\<lparr>store := [''k'' \<mapsto> \<lparr>Value = ''v'', ExpiryTime = Some 10\<rparr>,
                                      ''p'' \<mapsto> \<lparr>Value = ''w'', ExpiryTime = None\<rparr>]\<rparr>"
  have absent: "store st ''z'' = None"
    and timed: "store st ''k'' = Some \<lparr>Value = ''v'', ExpiryTime = Some 10\<rparr>"
    and kept: "store st ''p'' = Some \<lparr>Value = ''w'', ExpiryTime = None\<rparr>"
    by (simp_all add: st_def)
  have del: "st\<lparr>store := (store st)(''k'' := None)\<rparr> =
             init\<lparr>store := [''p'' \<mapsto> \<lparr>Value = ''w'', ExpiryTime = None\<rparr>]\<rparr>"
    by (simp add: st_def fun_upd_twist)
  have bytes: "spec_bulk_string ''v'' = ''$1'' @ crlf @ ''v'' @ crlf"
    "spec_bulk_string ''w'' = ''$1'' @ crlf @ ''w'' @ crlf"
    by (simp_all add: spec_bulk_string_def itoa_small)
  have "handleGet 11 [''GET'', ''z''] st = Done (''$-1'' @ crlf) st"
    using get_lazy_expiry [of st "''z''" 11 "''GET''"] absent by simp
  moreover have "handleGet 11 [''GET'', ''k''] st = Done (''$-1'' @ crlf) (st\<lparr>store := (store st)(''k'' := None)\<rparr>)"
    using get_lazy_expiry [of st "''k''" 11 "''GET''" "\<lparr>Value = ''v'', ExpiryTime = Some 10\<rparr>" 10] timed by simp
  moreover have "handleGet 10 [''GET'', ''k''] st = Done (''$1'' @ crlf @ ''v'' @ crlf) st"
    using get_lazy_expiry [of st "''k''" 10 "''GET''" "\<lparr>Value = ''v'', ExpiryTime = Some 10\<rparr>" 10] timed bytes by simp
  moreover have "handleGet 11 [''GET'', ''p''] st = Done (''$1'' @ crlf @ ''w'' @ crlf) st"
    using get_lazy_expiry [of st "''p''" 11 "''GET''" "\<lparr>Value = ''w'', ExpiryTime = None\<rparr>"] kept bytes by simp
  ultimately show ?thesis
    unfolding del unfolding st_def by simp
qed

text \<open>
  C7 as it is stated fails on a live entry whose value is the empty string: the entry
  at \<open>k\<close> expires at 10 and is read at 5, and the reply is \<open>$-1\r\n\<close>, which is not
  the bulk string of the value (\<open>$0\r\n\r\n\<close>) and is the reply for an absent key and
  for an expired entry; the entry stays in the store.
\<close>

theorem get_live_empty_value:
  "handleGet 5 [''GET'', ''k''] (init\<lparr>store := [''k'' \<mapsto> \<lparr>Value = [], ExpiryTime = Some 10\<rparr>]\<rparr>) =
     Done (''$-1'' @ crlf) (init\<lparr>store := [''k'' \<mapsto> \<lparr>Value = [], ExpiryTime = Some 10\<rparr>]\<rparr>)
   \<and> ''$-1'' @ crlf \<noteq> spec_bulk_string []
   \<and> handleGet 5 [''GET'', ''z''] (init\<lparr>store := [''k'' \<mapsto> \<lparr>Value = [], ExpiryTime = Some 10\<rparr>]\<rparr>) =
     Done (''$-1'' @ crlf) (init\<lparr>store := [''k'' \<mapsto> \<lparr>Value = [], ExpiryTime = Some 10\<rparr>]\<rparr>)
   \<and> handleGet 11 [''GET'', ''k''] (init\<lparr>store := [''k'' \<mapsto> \<lparr>Value = [], ExpiryTime = Some 10\<rparr>]\<rparr>) =
     Done (''$-1'' @ crlf) init"
  by (simp add: handleGet_def writeBulkString_def spec_bulk_string_def
      init_def writeNull_def itoa_small crlf_def)

text \<open>
  C10. A \<open>SET\<close> with exactly four arguments, whatever the fourth is, replies \<open>+OK\<close>
  and stores the value with no expiry: the fourth argument is not looked at and no
  error is written.
\<close>

theorem set_four_args:
  "length args = 4 \<Longrightarrow>
   handleSet L now args s =
     Done (''+OK'' @ crlf) (s\<lparr>store := (store s)(args ! 1 \<mapsto> \<lparr>Value = args ! 2, ExpiryTime = None\<rparr>)\<rparr>)"
  by (simp add: handleSet_def writeSimpleString_def)

theorem set_four_args_witness:
  "length [''SET'', ''k'', ''v'', ''PX''] = 4 \<and>
   handleSet ascii_lib 7 [''SET'', ''k'', ''v'', ''PX''] init =
     Done (''+OK'' @ crlf) (init\<lparr>store := [''k'' \<mapsto> \<lparr>Value = ''v'', ExpiryTime = None\<rparr>]\<rparr>)"
  using set_four_args [of "[''SET'', ''k'', ''v'', ''PX'']" ascii_lib 7 init]
  by (simp add: init_def)

section \<open>Lists\<close>



text \<open>
  C5, as the code has it. For every list and every pair of integer bounds, LRANGE
  changes nothing and replies an array of exactly the elements of \<open>spec_lrange\<close>, in
  list order: negative bounds count from the end, both are clamped into
  \<open>[0, length - 1]\<close>, the array is empty when the clamped start exceeds the clamped
  end or the start is past the end of the list, and otherwise holds the elements from
  the clamped start through the clamped end. In the array an element that is not
  empty is its bulk string and an empty element is the null bulk string; when no
  element of the range is empty the reply is the array of the wire format.
\<close>

theorem lrange_bounds:
  assumes "Atoi a = Some start" and "Atoi b = Some stop"
  shows "handleLRange [c, key, a, b] s =
           Done (array_bulk_or_null (spec_lrange (at_key (rPlush s) key) start stop)) s
         \<and> ([] \<notin> set (spec_lrange (at_key (rPlush s) key) start stop) \<longrightarrow>
              handleLRange [c, key, a, b] s =
                Done (spec_array (spec_lrange (at_key (rPlush s) key) start stop)) s)"
proof -
  define list where "list = at_key (rPlush s) key"
  define n where "n = int (length list)"
  define s1 where "s1 = (if start < 0 then (if n + start < 0 then 0 else n + start) else start)"
  define e1 where "e1 = (if stop < 0 then (if n + stop < 0 then 0 else n + stop) else stop)"
  define e2 where "e2 = (if e1 \<ge> n then n - 1 else e1)"
  have code: "handleLRange [c, key, a, b] s =
      Done (if s1 \<ge> n \<or> s1 > e1 then ''*0'' @ crlf
            else array_bulk_or_null (take (nat (e2 + 1) - nat s1) (drop (nat s1) list))) s"
    unfolding s1_def e1_def e2_def n_def list_def
    by (simp add: handleLRange_def assms Let_def array_bulk_or_null_def writeArrayHeader_def writeBulkString_bytes)
  have from_end: "max 0 (if start < 0 then n + start else start) = s1"
                 "max 0 (if stop < 0 then n + stop else stop) = e1"
    unfolding s1_def e1_def n_def by (simp_all add: max_def)
  have spec: "spec_lrange list start stop =
      (if min (n - 1) s1 > min (n - 1) e1 \<or> s1 \<ge> n then []
       else map (\<lambda>i. list ! i) [nat (min (n - 1) s1) ..< Suc (nat (min (n - 1) e1))])"
    unfolding spec_lrange_def Let_def n_def [symmetric] from_end by (rule refl)
  have s1_nonneg: "0 \<le> s1"
    unfolding s1_def n_def by simp
  have main: "handleLRange [c, key, a, b] s =
           Done (array_bulk_or_null (spec_lrange (at_key (rPlush s) key) start stop)) s"
  proof (cases "s1 \<ge> n \<or> s1 > e1")
    case True
    then have "spec_lrange list start stop = []"
      unfolding spec by (auto simp add: min_def)
    with True code show ?thesis
      by (simp add: array_bulk_or_null_def list_def itoa_small)
  next
    case False
    have bounds: "s1 \<le> e2" "e2 < n" "min (n - 1) s1 = s1" "min (n - 1) e1 = e2"
      using False unfolding e2_def by (auto simp add: min_def)
    have le: "Suc (nat e2) \<le> length list"
      using bounds s1_nonneg unfolding n_def by linarith
    have sub: "map (\<lambda>i. list ! i) [nat s1 ..< Suc (nat e2)] =
               take (nat (e2 + 1) - nat s1) (drop (nat s1) list)"
      using nth_range [OF le, of "nat s1"] bounds s1_nonneg by (simp add: nat_add_distrib)
    have "spec_lrange list start stop = take (nat (e2 + 1) - nat s1) (drop (nat s1) list)"
      using False bounds sub unfolding spec by simp
    with False code show ?thesis
      by (simp add: list_def)
  qed
  then show ?thesis
    by (simp add: array_without_empty)
qed

text \<open>
  On the list \<open>c, b, a\<close>: \<open>LRANGE l 0 -1\<close> is the whole list, \<open>LRANGE l 5 10\<close> is
  empty and \<open>LRANGE l -2 1\<close> is \<open>b\<close> alone.
\<close>

theorem lrange_bounds_witness:
  "Atoi ''0'' = Some 0 \<and> Atoi ''-1'' = Some (- 1)
   \<and> handleLRange [''LRANGE'', ''l'', ''0'', ''-1''] (init\<lparr>rPlush := [''l'' \<mapsto> [''c'', ''b'', ''a'']]\<rparr>) =
       Done (spec_array [''c'', ''b'', ''a'']) (init\<lparr>rPlush := [''l'' \<mapsto> [''c'', ''b'', ''a'']]\<rparr>)
   \<and> Atoi ''5'' = Some 5 \<and> Atoi ''10'' = Some 10
   \<and> handleLRange [''LRANGE'', ''l'', ''5'', ''10''] (init\<lparr>rPlush := [''l'' \<mapsto> [''c'', ''b'', ''a'']]\<rparr>) =
       Done (''*0'' @ crlf) (init\<lparr>rPlush := [''l'' \<mapsto> [''c'', ''b'', ''a'']]\<rparr>)
   \<and> Atoi ''-2'' = Some (- 2) \<and> Atoi ''1'' = Some 1
   \<and> handleLRange [''LRANGE'', ''l'', ''-2'', ''1''] (init\<lparr>rPlush := [''l'' \<mapsto> [''c'', ''b'', ''a'']]\<rparr>) =
       Done (''*1'' @ crlf @ ''$1'' @ crlf @ ''b'' @ crlf) (init\<lparr>rPlush := [''l'' \<mapsto> [''c'', ''b'', ''a'']]\<rparr>)"
proof -
  define st where "st = init\<lparr>rPlush := [''l'' \<mapsto> [''c'', ''b'', ''a'']]\<rparr>"
  have l: "at_key (rPlush st) ''l'' = [''c'', ''b'', ''a'']"
    by (simp add: st_def at_key_def)
  have p: "Atoi ''0'' = Some 0" "Atoi ''-1'' = Some (- 1)" "Atoi ''5'' = Some 5"
    "Atoi ''10'' = Some 10" "Atoi ''-2'' = Some (- 2)" "Atoi ''1'' = Some 1"
    by (simp_all add: Atoi_def is_digit_def)
  have r: "spec_lrange [''c'', ''b'', ''a''] 0 (- 1) = [''c'', ''b'', ''a'']"
    "spec_lrange [''c'', ''b'', ''a''] 5 10 = []"
    "spec_lrange [''c'', ''b'', ''a''] (- 2) 1 = [''b'']"
    by (simp_all add: spec_lrange_def Let_def upt_rec)
  have z: "spec_array [] = ''*0'' @ crlf" "spec_array [''b''] = ''*1'' @ crlf @ ''$1'' @ crlf @ ''b'' @ crlf"
    by (simp_all add: spec_array_def spec_bulk_string_def itoa_small)
  show ?thesis
    using lrange_bounds [OF p(1) p(2), of "''LRANGE''" "''l''" st]
      lrange_bounds [OF p(3) p(4), of "''LRANGE''" "''l''" st]
      lrange_bounds [OF p(5) p(6), of "''LRANGE''" "''l''" st]
    unfolding l r st_def [symmetric] using p z by (simp add: array_without_empty)
qed

text \<open>
  C5 as it is stated fails on a list that holds an empty string: on the list of the
  empty string and \<open>x\<close>, \<open>LRANGE l 0 -1\<close> replies \<open>*2\<close>, \<open>$-1\<close>, \<open>$1\<close>, \<open>x\<close>:
  the first element of the reply is the null bulk string, and the reply is not the
  array of the two elements of the range.
\<close>

theorem lrange_empty_element:
  "Atoi ''0'' = Some 0 \<and> Atoi ''-1'' = Some (- 1)
   \<and> spec_lrange [[], ''x''] 0 (- 1) = [[], ''x'']
   \<and> handleLRange [''LRANGE'', ''l'', ''0'', ''-1''] (init\<lparr>rPlush := [''l'' \<mapsto> [[], ''x'']]\<rparr>) =
       Done (''*2'' @ crlf @ ''$-1'' @ crlf @ ''$1'' @ crlf @ ''x'' @ crlf)
         (init\<lparr>rPlush := [''l'' \<mapsto> [[], ''x'']]\<rparr>)
   \<and> ''*2'' @ crlf @ ''$-1'' @ crlf @ ''$1'' @ crlf @ ''x'' @ crlf \<noteq> spec_array [[], ''x'']"
  by (simp add: handleLRange_def Atoi_def is_digit_def init_def at_key_def Let_def spec_lrange_def
      upt_rec writeArrayHeader_def writeBulkString_def spec_array_def spec_bulk_string_def
      itoa_small crlf_def)

text \<open>
  C6, as the code has it. On an empty or absent list LPOP replies the null bulk
  string, with a count or without, and changes nothing. On a non-empty list, LPOP
  without a count removes the head and replies it, as its bulk string when it is not
  empty and as the null bulk string when it is the empty string; LPOP with a count
  removes the first \<open>spec_lpop_count\<close> elements (a count that does not parse or is
  not positive stands for 1, a count beyond the length for the length) and replies
  them as an array in the order of the list, each element written in the same way;
  when none of them is empty the reply is the array of the wire format.
\<close>

theorem lpop_count:
  "(at_key (rPlush s) key = [] \<longrightarrow>
      handleLPop [c, key] s = Done (''$-1'' @ crlf) s
      \<and> handleLPop [c, key, cnt] s = Done (''$-1'' @ crlf) s)
   \<and> (at_key (rPlush s) key = x # xs \<longrightarrow>
      handleLPop [c, key] s =
        Done (if x = [] then ''$-1'' @ crlf else spec_bulk_string x)
          (s\<lparr>rPlush := (rPlush s)(key \<mapsto> xs)\<rparr>)
      \<and> handleLPop [c, key, cnt] s =
          Done (array_bulk_or_null (take (spec_lpop_count (Atoi cnt) (length (x # xs))) (x # xs)))
            (s\<lparr>rPlush := (rPlush s)(key \<mapsto> drop (spec_lpop_count (Atoi cnt) (length (x # xs))) (x # xs))\<rparr>)
      \<and> ([] \<notin> set (take (spec_lpop_count (Atoi cnt) (length (x # xs))) (x # xs)) \<longrightarrow>
           handleLPop [c, key, cnt] s =
             Done (spec_array (take (spec_lpop_count (Atoi cnt) (length (x # xs))) (x # xs)))
               (s\<lparr>rPlush := (rPlush s)(key \<mapsto> drop (spec_lpop_count (Atoi cnt) (length (x # xs))) (x # xs))\<rparr>)))"
proof -
  have a: "at_key (rPlush s) key = [] \<longrightarrow>
      handleLPop [c, key] s = Done (''$-1'' @ crlf) s
      \<and> handleLPop [c, key, cnt] s = Done (''$-1'' @ crlf) s"
    by (simp add: handleLPop_def writeNull_def)
  have b: "at_key (rPlush s) key = x # xs \<longrightarrow>
      handleLPop [c, key] s =
        Done (if x = [] then ''$-1'' @ crlf else spec_bulk_string x)
          (s\<lparr>rPlush := (rPlush s)(key \<mapsto> xs)\<rparr>)"
    by (simp add: handleLPop_def writeBulkString_def spec_bulk_string_def)
  have c: "at_key (rPlush s) key = x # xs \<longrightarrow>
      handleLPop [c, key, cnt] s =
          Done (array_bulk_or_null (take (spec_lpop_count (Atoi cnt) (length (x # xs))) (x # xs)))
            (s\<lparr>rPlush := (rPlush s)(key \<mapsto> drop (spec_lpop_count (Atoi cnt) (length (x # xs))) (x # xs))\<rparr>)"
    using lpop_with_count [of s key "x # xs" c cnt] by blast
  from a b c show ?thesis
    by (simp add: array_without_empty)
qed

text \<open>
  \<open>LPOP l 2\<close>, \<open>LPOP l\<close>, \<open>LPOP l 0\<close>, \<open>LPOP l x\<close> and \<open>LPOP l 9\<close> on the list
  \<open>c, b, a\<close>, and \<open>LPOP l\<close> on a server that has just started.
\<close>

theorem lpop_count_witness:
  "at_key (rPlush (init\<lparr>rPlush := [''l'' \<mapsto> [''c'', ''b'', ''a'']]\<rparr>)) ''l'' = [''c'', ''b'', ''a'']
   \<and> handleLPop [''LPOP'', ''l'', ''2''] (init\<lparr>rPlush := [''l'' \<mapsto> [''c'', ''b'', ''a'']]\<rparr>) =
       Done (spec_array [''c'', ''b'']) (init\<lparr>rPlush := [''l'' \<mapsto> [''a'']]\<rparr>)
   \<and> handleLPop [''LPOP'', ''l''] (init\<lparr>rPlush := [''l'' \<mapsto> [''c'', ''b'', ''a'']]\<rparr>) =
       Done (''$1'' @ crlf @ ''c'' @ crlf) (init\<lparr>rPlush := [''l'' \<mapsto> [''b'', ''a'']]\<rparr>)
   \<and> handleLPop [''LPOP'', ''l'', ''0''] (init\<lparr>rPlush := [''l'' \<mapsto> [''c'', ''b'', ''a'']]\<rparr>) =
       Done (spec_array [''c'']) (init\<lparr>rPlush := [''l'' \<mapsto> [''b'', ''a'']]\<rparr>)
   \<and> handleLPop [''LPOP'', ''l'', ''x''] (init\<lparr>rPlush := [''l'' \<mapsto> [''c'', ''b'', ''a'']]\<rparr>) =
       Done (spec_array [''c'']) (init\<lparr>rPlush := [''l'' \<mapsto> [''b'', ''a'']]\<rparr>)
   \<and> handleLPop [''LPOP'', ''l'', ''9''] (init\<lparr>rPlush := [''l'' \<mapsto> [''c'', ''b'', ''a'']]\<rparr>) =
       Done (spec_array [''c'', ''b'', ''a'']) (init\<lparr>rPlush := [''l'' \<mapsto> []]\<rparr>)
   \<and> at_key (rPlush init) ''l'' = []
   \<and> handleLPop [''LPOP'', ''l''] init = Done (''$-1'' @ crlf) init"
proof -
  define st where "st = init\<lparr>rPlush := [''l'' \<mapsto> [''c'', ''b'', ''a'']]\<rparr>"
  have l: "at_key (rPlush st) ''l'' = [''c'', ''b'', ''a'']" and e: "at_key (rPlush init) ''l'' = []"
    by (simp_all add: st_def init_def at_key_def)
  have p: "Atoi ''2'' = Some 2" "Atoi ''0'' = Some 0" "Atoi ''x'' = None" "Atoi ''9'' = Some 9"
    by (simp_all add: Atoi_def is_digit_def)
  have upd: "st\<lparr>rPlush := (rPlush st)(''l'' \<mapsto> ys)\<rparr> = init\<lparr>rPlush := [''l'' \<mapsto> ys]\<rparr>" for ys
    by (simp add: st_def)
  have bytes: "spec_bulk_string ''c'' = ''$1'' @ crlf @ ''c'' @ crlf"
    by (simp add: spec_bulk_string_def itoa_small)
  show ?thesis
    using lpop_count [where s = st and key = "''l''" and c = "''LPOP''"
        and cnt = "''2''" and x = "''c''" and xs = "[''b'', ''a'']"]
      lpop_count [where s = st and key = "''l''" and c = "''LPOP''"
        and cnt = "''0''" and x = "''c''" and xs = "[''b'', ''a'']"]
      lpop_count [where s = st and key = "''l''" and c = "''LPOP''"
        and cnt = "''x''" and x = "''c''" and xs = "[''b'', ''a'']"]
      lpop_count [where s = st and key = "''l''" and c = "''LPOP''"
        and cnt = "''9''" and x = "''c''" and xs = "[''b'', ''a'']"]
      lpop_count [where s = init and key = "''l''" and c = "''LPOP''"
        and cnt = "''2''" and x = "''c''" and xs = "[]"]
    unfolding st_def [symmetric]
    by (simp add: l e p upd spec_lpop_count_def bytes array_without_empty)
qed

text \<open>
  C6 as it is stated fails on a list whose head is the empty string: on the list of
  the empty string and \<open>b\<close>, \<open>LPOP l\<close> removes the head and replies \<open>$-1\r\n\<close>,
  which is not the bulk string of the head (\<open>$0\r\n\r\n\<close>) and is the reply of
  \<open>LPOP\<close> on an empty list; \<open>LPOP l 2\<close> replies \<open>*2\<close>, \<open>$-1\<close>, \<open>$1\<close>, \<open>b\<close>.
\<close>

theorem lpop_empty_head:
  "handleLPop [''LPOP'', ''l''] (init\<lparr>rPlush := [''l'' \<mapsto> [[], ''b'']]\<rparr>) =
     Done (''$-1'' @ crlf) (init\<lparr>rPlush := [''l'' \<mapsto> [''b'']]\<rparr>)
   \<and> ''$-1'' @ crlf \<noteq> spec_bulk_string []
   \<and> handleLPop [''LPOP'', ''l''] (init\<lparr>rPlush := [''l'' \<mapsto> []]\<rparr>) =
     Done (''$-1'' @ crlf) (init\<lparr>rPlush := [''l'' \<mapsto> []]\<rparr>)
   \<and> Atoi ''2'' = Some 2
   \<and> handleLPop [''LPOP'', ''l'', ''2''] (init\<lparr>rPlush := [''l'' \<mapsto> [[], ''b'']]\<rparr>) =
     Done (''*2'' @ crlf @ ''$-1'' @ crlf @ ''$1'' @ crlf @ ''b'' @ crlf) (init\<lparr>rPlush := [''l'' \<mapsto> []]\<rparr>)
   \<and> ''*2'' @ crlf @ ''$-1'' @ crlf @ ''$1'' @ crlf @ ''b'' @ crlf \<noteq> spec_array [[], ''b'']"
  by (simp add: handleLPop_def Atoi_def is_digit_def init_def at_key_def Let_def
      writeArrayHeader_def writeBulkString_def writeNull_def spec_array_def spec_bulk_string_def
      itoa_small crlf_def)

section \<open>Blocking pop and wake-up\<close>

text \<open>
  C8. Called with the mutex free on a non-empty sequence of values, LPUSH and RPUSH
  return, whatever the number of values, and between the state before and the state
  after the wake-up is \<open>spec_wake_up\<close>: with a waiter queued for the key exactly the
  head waiter is taken off the queue and one signal is sent to its channel without
  blocking (buffered when the channel has room, dropped otherwise), every other waiter
  stays queued in its place, and with no waiter queued nothing changes. A BLPOP that
  has to wait queues its waiter at the tail, so the waiters of a key are woken first
  in, first out.
\<close>

theorem push_wakes_head_waiter:
  assumes "\<not> mu s" and "vals \<noteq> []"
  shows "(\<exists>out s'. handleLPush (c # key # vals) s = Done out s' \<and> spec_wake_up key s s')
       \<and> (\<exists>out s'. handleRPush (c' # key # vals) s = Done out s' \<and> spec_wake_up key s s')
       \<and> (at_key (rPlush s) key = [] \<and> ParseFloat L tm = Some t \<longrightarrow>
            (\<exists>req s'. handleBLPop L [c'', key, tm] s = Parked req (is_zero L t) s'
               \<and> blockings s' = (blockings s)(key \<mapsto> at_key (blockings s) key @ [req])))"
proof -
  from assms(2) have len: "\<not> length (c # key # vals) < 3" "\<not> length (c' # key # vals) < 3"
    by (cases vals, simp_all)+
  have a: "\<exists>out s'. handleLPush (c # key # vals) s = Done out s' \<and> spec_wake_up key s s'"
    using assms(1) len
    by (simp add: handleLPush_def Let_def wake_effect)
  have b: "\<exists>out s'. handleRPush (c' # key # vals) s = Done out s' \<and> spec_wake_up key s s'"
    using assms(1) len
    by (simp add: handleRPush_def Let_def wake_effect)
  have c: "at_key (rPlush s) key = [] \<and> ParseFloat L tm = Some t \<longrightarrow>
            (\<exists>req s'. handleBLPop L [c'', key, tm] s = Parked req (is_zero L t) s'
               \<and> blockings s' = (blockings s)(key \<mapsto> at_key (blockings s) key @ [req]))"
    using assms(1)
    by (auto simp add: handleBLPop_def Let_def at_key_def split: option.splits list.splits)
  from a b c show ?thesis by blast
qed

text \<open>
  Two waiters are queued for \<open>jobs\<close>, on the channels 0 and 1, and two values are
  pushed: the pushes return and wake as \<open>spec_wake_up\<close> says, and a \<open>BLPOP jobs 0\<close>
  in that state queues its waiter behind the two.
\<close>

theorem push_wakes_head_waiter_witness:
  "\<not> mu (init\<lparr>blockings := [''jobs'' \<mapsto> [\<lparr>Key = ''jobs'', Ch = 0, Timeout = 0\<rparr>,
                                          \<lparr>Key = ''jobs'', Ch = 1, Timeout = 0\<rparr>]],
              chans := [0 \<mapsto> [], 1 \<mapsto> []], next_ch := 2\<rparr>)
   \<and> [''a'', ''b''] \<noteq> []
   \<and> (\<exists>out s'. handleLPush [''LPUSH'', ''jobs'', ''a'', ''b'']
         (init\<lparr>blockings := [''jobs'' \<mapsto> [\<lparr>Key = ''jobs'', Ch = 0, Timeout = 0\<rparr>,
                                          \<lparr>Key = ''jobs'', Ch = 1, Timeout = 0\<rparr>]],
               chans := [0 \<mapsto> [], 1 \<mapsto> []], next_ch := 2\<rparr>) = Done out s'
        \<and> blockings s' = [''jobs'' \<mapsto> [\<lparr>Key = ''jobs'', Ch = 1, Timeout = 0\<rparr>]]
        \<and> chans s' = [0 \<mapsto> [''jobs''], 1 \<mapsto> []])
   \<and> (\<exists>out s'. handleRPush [''RPUSH'', ''jobs'', ''a'', ''b'']
         (init\<lparr>blockings := [''jobs'' \<mapsto> [\<lparr>Key = ''jobs'', Ch = 0, Timeout = 0\<rparr>,
                                          \<lparr>Key = ''jobs'', Ch = 1, Timeout = 0\<rparr>]],
               chans := [0 \<mapsto> [], 1 \<mapsto> []], next_ch := 2\<rparr>) = Done out s'
        \<and> blockings s' = [''jobs'' \<mapsto> [\<lparr>Key = ''jobs'', Ch = 1, Timeout = 0\<rparr>]]
        \<and> chans s' = [0 \<mapsto> [''jobs''], 1 \<mapsto> []])
   \<and> at_key (rPlush (init\<lparr>blockings := [''jobs'' \<mapsto> [\<lparr>Key = ''jobs'', Ch = 0, Timeout = 0\<rparr>,
                                          \<lparr>Key = ''jobs'', Ch = 1, Timeout = 0\<rparr>]],
               chans := [0 \<mapsto> [], 1 \<mapsto> []], next_ch := 2\<rparr>)) ''jobs'' = []
   \<and> ParseFloat ascii_lib ''0'' = Some 0
   \<and> (\<exists>req s'. handleBLPop ascii_lib [''BLPOP'', ''jobs'', ''0'']
         (init\<lparr>blockings := [''jobs'' \<mapsto> [\<lparr>Key = ''jobs'', Ch = 0, Timeout = 0\<rparr>,
                                          \<lparr>Key = ''jobs'', Ch = 1, Timeout = 0\<rparr>]],
               chans := [0 \<mapsto> [], 1 \<mapsto> []], next_ch := 2\<rparr>) = Parked req True s'
        \<and> blockings s' = [''jobs'' \<mapsto> [\<lparr>Key = ''jobs'', Ch = 0, Timeout = 0\<rparr>,
                                         \<lparr>Key = ''jobs'', Ch = 1, Timeout = 0\<rparr>, req]])"
proof -
  define st where "st = init\<lparr>blockings := [''jobs'' \<mapsto> [\<lparr>Key = ''jobs'', Ch = 0, Timeout = 0\<rparr>,
                                                          \<lparr>Key = ''jobs'', Ch = 1, Timeout = 0\<rparr>]],
                              chans := [0 \<mapsto> [], 1 \<mapsto> []], next_ch := 2\<rparr>"
  have free: "\<not> mu st" and vals: "[''a'', ''b''] \<noteq> []"
    by (simp_all add: st_def init_def)
  have q: "at_key (blockings st) ''jobs'' = [\<lparr>Key = ''jobs'', Ch = 0, Timeout = 0\<rparr>,
                                              \<lparr>Key = ''jobs'', Ch = 1, Timeout = 0\<rparr>]"
    and b: "blockings st = [''jobs'' \<mapsto> [\<lparr>Key = ''jobs'', Ch = 0, Timeout = 0\<rparr>,
                                           \<lparr>Key = ''jobs'', Ch = 1, Timeout = 0\<rparr>]]"
    and ch: "chans st = [0 \<mapsto> [], 1 \<mapsto> []]"
    and l: "rPlush st = Map.empty"
    by (simp_all add: st_def init_def at_key_def)
  have w: "spec_wake_up ''jobs'' st s' =
             (blockings s' = [''jobs'' \<mapsto> [\<lparr>Key = ''jobs'', Ch = 1, Timeout = 0\<rparr>]]
              \<and> chans s' = [0 \<mapsto> [''jobs''], 1 \<mapsto> []])" for s'
    by (simp add: spec_wake_up_def b ch at_key_def fun_upd_twist)
  have pf: "ParseFloat ascii_lib ''0'' = Some 0" and z: "is_zero ascii_lib 0"
    by (simp_all add: ascii_lib_def Atoi_def is_digit_def)
  show ?thesis
    using push_wakes_head_waiter [OF free vals, of "''LPUSH''" "''jobs''" "''RPUSH''" ascii_lib "''0''" 0 "''BLPOP''"]
    unfolding st_def [symmetric]
    by (simp add: w free l pf z b at_key_def)
qed




section \<open>Dispatch and the connection loop\<close>

text \<open>
  C9. For every command whose token, in upper case, is none of the case labels of
  the switch, the dispatch replies the error \<open>unknown command '<name>'\<close> with the
  token as it was sent, and the whole state (key/value store, list store, waiter
  queues, mutex and channels) is unchanged.
\<close>

theorem unknown_command:
  "args \<noteq> [] \<Longrightarrow> ToUpper L (args ! 0) \<notin> set supported \<Longrightarrow>
   dispatch L now args s = Done (''-ERR unknown command '' @ [sq] @ args ! 0 @ [sq] @ crlf) s"
  by (simp add: dispatch_def supported_def writeError_def quoted_def)

theorem unknown_command_witness:
  "[''foo'', ''k''] \<noteq> [] \<and> ToUpper ascii_lib ([''foo'', ''k''] ! 0) \<notin> set supported
   \<and> dispatch ascii_lib 0 [''foo'', ''k''] init = Done (''-ERR unknown command '' @ [sq] @ ''foo'' @ [sq] @ crlf) init"
proof -
  have u: "ToUpper ascii_lib ([''foo'', ''k''] ! 0) \<notin> set supported"
    by (simp add: ascii_lib_def ascii_upper_def supported_def)
  show ?thesis
    using unknown_command [of "[''foo'', ''k'']" ascii_lib 0 init] u by simp
qed

text \<open>
  C3 asks that a failed read ends the loop with nothing written. On a connection
  that the peer has closed, where every read fails with \<open>e\<close>, the loop of
  \<open>HandleConnection\<close> is still running after any number \<open>n\<close> of iterations, and
  has written the error reply \<open>-ERR e\<close> once in each of them.
\<close>

theorem closed_connection_never_returns:
  "HandleConnection L clock n i \<lparr>inp = \<lparr>pending = [], failure = e\<rparr>, out = w\<rparr> s =
     Looping \<lparr>inp = \<lparr>pending = [], failure = e\<rparr>, out = w @ concat (replicate n (writeError e))\<rparr> s"
proof (induction n arbitrary: i w)
  case 0
  show ?case by simp
next
  case (Suc n)
  have "parseArgs L \<lparr>pending = [], failure = e\<rparr> = (Inl (ReadError e), [], \<lparr>pending = [], failure = e\<rparr>)"
    by (simp add: parseArgs_def ReadString_def)
  then show ?case
    by (simp add: Suc.IH)
qed

text \<open>
  The same when the read fails in the middle of a request: after \<open>*2\<close>, \<open>$3\<close> and
  \<open>GET\<close> the peer closes, and two iterations write \<open>-ERR EOF\<close> twice.
\<close>

lemma read_fails_mid_request:
  "HandleConnection ascii_lib clock 2 0
     \<lparr>inp = \<lparr>pending = ''*2'' @ crlf @ ''$3'' @ crlf @ ''GET'' @ crlf, failure = ''EOF''\<rparr>, out = []\<rparr> init =
   Looping \<lparr>inp = \<lparr>pending = [], failure = ''EOF''\<rparr>, out = ''-ERR EOF'' @ crlf @ ''-ERR EOF'' @ crlf\<rparr> init"
  by (simp add: numeral_2_eq_2 parseArgs_def ReadString_def crlf_def LF_def CR_def ascii_lib_def
      ascii_space_def parseLength_def Atoi_def is_digit_def writeError_def)

end
